theory Spec2Isabelle
  imports Complex_Main
begin

section \<open>Bond analytics of \<open>Financial_Hard.py\<close>\<close>

text \<open>
  The model follows the type annotations of the source: a Python \<open>float\<close> is a real number
  (rounding, overflow, infinities and NaN are outside the model), a Python \<open>int\<close> is an
  unbounded integer. Every exception the source can raise is a value: a result is
  \<open>error + 'a\<close>, with \<open>Inl\<close> the exception.
\<close>

subsection \<open>Exceptions\<close>

text \<open>
  Two exception classes occur. A \<open>ZeroDivisionError\<close> is raised either by the explicit guard of
  \<open>Calculator.divide\<close> or by one of Python's own operators (\<open>/\<close>, \<open>**\<close>); the tag records
  which. An \<open>IndexError\<close> is raised by indexing an empty list.
\<close>

datatype raised_by = Divide_guard | Operator

datatype error = ZeroDivisionError raised_by | IndexError

text \<open>Python's \<open>a / b\<close> on numbers: raises when the divisor is zero.\<close>

definition truediv :: "real \<Rightarrow> real \<Rightarrow> error + real" where
  "truediv a b = (if b = 0 then Inl (ZeroDivisionError Operator) else Inr (a / b))"

text \<open>
  Python's \<open>base ** exponent\<close> for the exponents the source uses, which are all integers
  (\<open>period: int\<close>, \<open>t\<close>, \<open>t + 2\<close>): zero to a negative power raises.
\<close>

definition pow :: "real \<Rightarrow> int \<Rightarrow> error + real" where
  "pow base exponent =
     (if base = 0 \<and> exponent < 0 then Inl (ZeroDivisionError Operator)
      else Inr (power_int base exponent))"

subsection \<open>class Calculator\<close>

definition add :: "real \<Rightarrow> real \<Rightarrow> real" where
  "add a b = a + b"

definition subtract :: "real \<Rightarrow> real \<Rightarrow> real" where
  "subtract a b = a - b"

definition multiply :: "real \<Rightarrow> real \<Rightarrow> real" where
  "multiply a b = a * b"

definition divide :: "real \<Rightarrow> real \<Rightarrow> error + real" where
  "divide a b = (if b = 0 then Inl (ZeroDivisionError Divide_guard) else truediv a b)"

definition power :: "real \<Rightarrow> int \<Rightarrow> error + real" where
  "power base exponent = pow base exponent"

subsection \<open>class FinancialCalculator\<close>

definition present_value :: "real \<Rightarrow> real \<Rightarrow> int \<Rightarrow> error + real" where
  "present_value cash_flow rate period =
     (case power (1 + rate) period of
        Inl e \<Rightarrow> Inl e
      | Inr discount_factor \<Rightarrow> divide cash_flow discount_factor)"

definition future_value :: "real \<Rightarrow> real \<Rightarrow> int \<Rightarrow> error + real" where
  "future_value cash_flow rate period =
     (case power (1 + rate) period of
        Inl e \<Rightarrow> Inl e
      | Inr growth_factor \<Rightarrow> Inr (multiply cash_flow growth_factor))"

subsection \<open>class Bond\<close>

record bond =
  face_value :: real
  coupon_rate :: real
  yield_to_maturity :: real
  maturity_years :: int
  payments_per_year :: int
  total_periods :: int
  periodic_coupon :: real
  periodic_yield :: real

text \<open>\<open>Bond.__init__\<close>: the three derived attributes are computed in the source's order.\<close>

definition Bond_init :: "real \<Rightarrow> real \<Rightarrow> real \<Rightarrow> int \<Rightarrow> int \<Rightarrow> error + bond" where
  "Bond_init fv cr ytm my ppy =
     (let tp = my * ppy in
      case truediv (fv * cr) (of_int ppy) of
        Inl e \<Rightarrow> Inl e
      | Inr pc \<Rightarrow>
          (case truediv ytm (of_int ppy) of
             Inl e \<Rightarrow> Inl e
           | Inr py \<Rightarrow>
               Inr \<lparr>face_value = fv, coupon_rate = cr, yield_to_maturity = ytm,
                    maturity_years = my, payments_per_year = ppy,
                    total_periods = tp, periodic_coupon = pc, periodic_yield = py\<rparr>))"

text \<open>
  A method called on the result of the constructor, as in \<open>Bond(...).price()\<close>: a failed
  construction propagates.
\<close>

definition call :: "error + bond \<Rightarrow> (bond \<Rightarrow> error + 'a) \<Rightarrow> error + 'a" where
  "call r method = (case r of Inl e \<Rightarrow> Inl e | Inr b \<Rightarrow> method b)"

text \<open>Python's \<open>[x] * n\<close>: a non-positive \<open>n\<close> gives the empty list.\<close>

definition list_times :: "'a \<Rightarrow> int \<Rightarrow> 'a list" where
  "list_times x n = replicate (nat n) x"

text \<open>
  \<open>Bond._cash_flows\<close>: \<open>cash_flows[-1] += face_value\<close> reads and writes the last element, and
  raises on the empty list.
\<close>

definition cash_flows :: "bond \<Rightarrow> error + real list" where
  "cash_flows b =
     (let cfs = list_times (periodic_coupon b) (total_periods b) in
      if cfs = [] then Inl IndexError
      else Inr (cfs[length cfs - 1 := cfs ! (length cfs - 1) + face_value b]))"

text \<open>Python's \<open>enumerate(xs, start)\<close>.\<close>

fun enumerate_from :: "int \<Rightarrow> 'a list \<Rightarrow> (int \<times> 'a) list" where
  "enumerate_from start [] = []"
| "enumerate_from start (x # xs) = (start, x) # enumerate_from (start + 1) xs"

text \<open>The loop of \<open>Bond.price\<close>, with its accumulator.\<close>

fun price_loop :: "bond \<Rightarrow> (int \<times> real) list \<Rightarrow> real \<Rightarrow> error + real" where
  "price_loop b [] price = Inr price"
| "price_loop b ((t, cf) # rest) price =
     (case present_value cf (periodic_yield b) t of
        Inl e \<Rightarrow> Inl e
      | Inr pv \<Rightarrow> price_loop b rest (price + pv))"

definition price :: "bond \<Rightarrow> error + real" where
  "price b =
     (case cash_flows b of
        Inl e \<Rightarrow> Inl e
      | Inr cfs \<Rightarrow> price_loop b (enumerate_from 1 cfs) 0)"

text \<open>The loop of \<open>Bond.macaulay_duration\<close>.\<close>

fun macaulay_loop :: "bond \<Rightarrow> (int \<times> real) list \<Rightarrow> real \<Rightarrow> error + real" where
  "macaulay_loop b [] weighted_sum = Inr weighted_sum"
| "macaulay_loop b ((t, cf) # rest) weighted_sum =
     (case present_value cf (periodic_yield b) t of
        Inl e \<Rightarrow> Inl e
      | Inr pv_cf \<Rightarrow> macaulay_loop b rest (weighted_sum + of_int t * pv_cf))"

definition macaulay_duration :: "bond \<Rightarrow> error + real" where
  "macaulay_duration b =
     (case price b of
        Inl e \<Rightarrow> Inl e
      | Inr bond_price \<Rightarrow>
          (case cash_flows b of
             Inl e \<Rightarrow> Inl e
           | Inr cfs \<Rightarrow>
               (case macaulay_loop b (enumerate_from 1 cfs) 0 of
                  Inl e \<Rightarrow> Inl e
                | Inr weighted_sum \<Rightarrow>
                    (case truediv weighted_sum bond_price of
                       Inl e \<Rightarrow> Inl e
                     | Inr duration_in_periods \<Rightarrow>
                         truediv duration_in_periods (of_int (payments_per_year b))))))"

definition modified_duration :: "bond \<Rightarrow> error + real" where
  "modified_duration b =
     (case macaulay_duration b of
        Inl e \<Rightarrow> Inl e
      | Inr mac_dur \<Rightarrow> truediv mac_dur (1 + periodic_yield b))"

text \<open>The loop of \<open>Bond.convexity\<close>.\<close>

fun convexity_loop :: "bond \<Rightarrow> (int \<times> real) list \<Rightarrow> real \<Rightarrow> error + real" where
  "convexity_loop b [] convexity_sum = Inr convexity_sum"
| "convexity_loop b ((t, cf) # rest) convexity_sum =
     (case power (1 + periodic_yield b) (t + 2) of
        Inl e \<Rightarrow> Inl e
      | Inr discount \<Rightarrow>
          (case truediv (cf * of_int t * of_int (t + 1)) discount of
             Inl e \<Rightarrow> Inl e
           | Inr term \<Rightarrow> convexity_loop b rest (convexity_sum + term)))"

definition convexity :: "bond \<Rightarrow> error + real" where
  "convexity b =
     (case price b of
        Inl e \<Rightarrow> Inl e
      | Inr bond_price \<Rightarrow>
          (case cash_flows b of
             Inl e \<Rightarrow> Inl e
           | Inr cfs \<Rightarrow>
               (case convexity_loop b (enumerate_from 1 cfs) 0 of
                  Inl e \<Rightarrow> Inl e
                | Inr convexity_sum \<Rightarrow>
                    (case truediv convexity_sum bond_price of
                       Inl e \<Rightarrow> Inl e
                     | Inr per_period \<Rightarrow>
                         truediv per_period (of_int (payments_per_year b ^ 2))))))"

text \<open>
  \<open>Bond.price_percentage_change\<close>; \<open>delta_yield ** 2\<close> has a non-negative exponent and
  cannot raise.
\<close>

definition price_percentage_change :: "bond \<Rightarrow> real \<Rightarrow> error + real" where
  "price_percentage_change b delta_yield =
     (case modified_duration b of
        Inl e \<Rightarrow> Inl e
      | Inr d_mod \<Rightarrow>
          (case convexity b of
             Inl e \<Rightarrow> Inl e
           | Inr conv \<Rightarrow> Inr (- d_mod * delta_yield + 0.5 * conv * delta_yield ^ 2)))"

subsection \<open>Calling conventions and comparison of results\<close>

text \<open>A method with one argument, called on the result of the constructor.\<close>

definition call1 :: "error + bond \<Rightarrow> (bond \<Rightarrow> 'x \<Rightarrow> error + 'a) \<Rightarrow> 'x \<Rightarrow> error + 'a" where
  "call1 r method x = (case r of Inl e \<Rightarrow> Inl e | Inr b \<Rightarrow> method b x)"

text \<open>A call returns a number that lies within \<open>tol\<close> of \<open>v\<close>.\<close>

definition approx :: "error + real \<Rightarrow> real \<Rightarrow> real \<Rightarrow> bool" where
  "approx r v tol = (case r of Inl e \<Rightarrow> False | Inr x \<Rightarrow> \<bar>x - v\<bar> \<le> tol)"

subsection \<open>What the loops compute\<close>

text \<open>
  The sums the three loops accumulate over a schedule whose first period is \<open>k\<close>, for the
  discount base \<open>d = 1 + periodic_yield\<close>; and the schedule \<open>_cash_flows\<close> returns when it
  returns. The loops are related to these sums by the lemmas below.
\<close>

fun pv_sum :: "real \<Rightarrow> int \<Rightarrow> real list \<Rightarrow> real" where
  "pv_sum d k [] = 0"
| "pv_sum d k (cf # cfs) = cf / power_int d k + pv_sum d (k + 1) cfs"



definition schedule :: "bond \<Rightarrow> real list" where
  "schedule b = (replicate (nat (total_periods b)) (periodic_coupon b))
        [nat (total_periods b) - 1 := periodic_coupon b + face_value b]"

section \<open>The constructor, the schedule and the loops\<close>

lemma Bond_init_Inr:
  "Bond_init fv cr ytm my ppy = Inr b \<Longrightarrow>
     ppy \<noteq> 0 \<and>
     b = \<lparr>face_value = fv, coupon_rate = cr, yield_to_maturity = ytm,
          maturity_years = my, payments_per_year = ppy,
          total_periods = my * ppy, periodic_coupon = fv * cr / of_int ppy,
          periodic_yield = ytm / of_int ppy\<rparr>"
  by (auto simp: Bond_init_def truediv_def Let_def split: if_splits)

lemma Bond_init_fields:
  assumes "Bond_init fv cr ytm my ppy = Inr b"
  shows "ppy \<noteq> 0" and "face_value b = fv" and "payments_per_year b = ppy"
    and "total_periods b = my * ppy" and "periodic_coupon b = fv * cr / of_int ppy"
    and "periodic_yield b = ytm / of_int ppy"
  using Bond_init_Inr[OF assms] by simp_all

lemma pos_periods: "0 < my \<Longrightarrow> 0 < ppy \<Longrightarrow> (1::int) \<le> my * ppy"
  by (metis int_one_le_iff_zero_less mult_pos_pos)


lemma present_value_ok:
  "1 + r \<noteq> 0 \<Longrightarrow> present_value cf r t = Inr (cf / power_int (1 + r) t)"
  by (simp add: present_value_def power_def pow_def divide_def truediv_def)


lemma price_loop_ok:
  "1 + periodic_yield b \<noteq> 0 \<Longrightarrow>
     price_loop b (enumerate_from k cfs) acc = Inr (acc + pv_sum (1 + periodic_yield b) k cfs)"
  by (induction cfs arbitrary: k acc) (simp_all add: present_value_ok)



lemma cash_flows_empty:
  "total_periods b \<le> 0 \<Longrightarrow> cash_flows b = Inl IndexError"
  by (simp add: cash_flows_def list_times_def)

lemma cash_flows_nonempty:
  "1 \<le> total_periods b \<Longrightarrow> cash_flows b = Inr (schedule b)"
  by (simp add: cash_flows_def list_times_def Let_def schedule_def)

lemma schedule_nonempty: "1 \<le> total_periods b \<Longrightarrow> schedule b \<noteq> []"
  by (simp add: schedule_def)

lemma price_ok:
  "1 \<le> total_periods b \<Longrightarrow> 1 + periodic_yield b \<noteq> 0 \<Longrightarrow>
     price b = Inr (pv_sum (1 + periodic_yield b) 1 (schedule b))"
  by (simp add: price_def cash_flows_nonempty price_loop_ok)





lemma pv_sum_update_last:
  "xs \<noteq> [] \<Longrightarrow>
     pv_sum d k (xs[length xs - 1 := xs ! (length xs - 1) + F]) =
       pv_sum d k xs + F / power_int d (k + int (length xs) - 1)"
proof (induction xs arbitrary: k)
  case Nil
  then show ?case by simp
next
  case (Cons x xs)
  show ?case
  proof (cases xs)
    case Nil
    then show ?thesis by (simp add: add_divide_distrib)
  next
    case (Cons y ys)
    then have ne: "xs \<noteq> []" by simp
    have len: "length (x # xs) - 1 = Suc (length xs - 1)" using ne by simp
    have idx: "(x # xs) ! (length (x # xs) - 1) = xs ! (length xs - 1)"
      using ne by (simp add: len)
    have ex: "k + 1 + int (length xs) - 1 = k + int (length (x # xs)) - 1" by simp
    show ?thesis
      unfolding idx unfolding len
      using Cons.IH[OF ne, of "k + 1"] by (simp add: ex)
  qed
qed


lemma schedule_as_update:
  "1 \<le> total_periods b \<Longrightarrow>
     schedule b =
       (let xs = replicate (nat (total_periods b)) (periodic_coupon b)
        in xs[length xs - 1 := xs ! (length xs - 1) + face_value b])"
  by (simp add: schedule_def Let_def)

lemma pv_sum_schedule:
  assumes "1 \<le> total_periods b"
  shows "pv_sum d 1 (schedule b) =
           pv_sum d 1 (replicate (nat (total_periods b)) (periodic_coupon b))
             + face_value b / power_int d (total_periods b)"
proof -
  let ?xs = "replicate (nat (total_periods b)) (periodic_coupon b)"
  have ne: "?xs \<noteq> []" using assms by simp
  have "schedule b = ?xs[length ?xs - 1 := ?xs ! (length ?xs - 1) + face_value b]"
    using schedule_as_update[OF assms] by (simp add: Let_def)
  then have "pv_sum d 1 (schedule b) =
      pv_sum d 1 ?xs + face_value b / power_int d (1 + int (length ?xs) - 1)"
    using pv_sum_update_last[OF ne, of d 1 "face_value b"] by simp
  moreover have "1 + int (length ?xs) - 1 = total_periods b" using assms by simp
  ultimately show ?thesis by simp
qed


lemma pv_sum_replicate_zero: "pv_sum d k (replicate n 0) = 0"
  by (induction n arbitrary: k) simp_all




section \<open>Properties\<close>

subsection \<open>The division guard\<close>

text \<open>
  C6: for every \<open>x\<close>, \<open>divide(x, 0)\<close> raises the division-by-zero error of the guard, and for
  every \<open>b \<noteq> 0\<close>, \<open>divide(a, b)\<close> returns \<open>a / b\<close> without error.
\<close>

theorem divide_by_zero_raises:
  "divide x 0 = Inl (ZeroDivisionError Divide_guard) \<and> (b \<noteq> 0 \<longrightarrow> divide a b = Inr (a / b))"
  by (simp add: divide_def truediv_def)

theorem divide_by_zero_raises_witness:
  "divide 7 0 = Inl (ZeroDivisionError Divide_guard) \<and> (2::real) \<noteq> 0 \<and> divide 7 2 = Inr (7 / 2)"
  using divide_by_zero_raises [of 7 2 7] by simp

subsection \<open>Construction\<close>

text \<open>
  C9: constructing a Bond with \<open>payments_per_year = 0\<close> raises a division-by-zero error, already
  when the periodic coupon \<open>face_value * coupon_rate / payments_per_year\<close> is derived; for every
  other \<open>payments_per_year\<close> the constructor returns the Bond with its five arguments and three
  derived attributes, whatever the signs of the rates and of the maturity.
\<close>

theorem constructor_validation:
  "truediv (fv * cr) (of_int 0) = Inl (ZeroDivisionError Operator)
   \<and> Bond_init fv cr ytm my 0 = Inl (ZeroDivisionError Operator)
   \<and> (ppy \<noteq> 0 \<longrightarrow>
        Bond_init fv cr ytm my ppy =
          Inr \<lparr>face_value = fv, coupon_rate = cr, yield_to_maturity = ytm,
               maturity_years = my, payments_per_year = ppy,
               total_periods = my * ppy, periodic_coupon = fv * cr / of_int ppy,
               periodic_yield = ytm / of_int ppy\<rparr>)"
  by (simp add: Bond_init_def truediv_def Let_def)

theorem constructor_validation_witness:
  "Bond_init 100 (- (1 / 2)) (- (1 / 4)) (- 3) 0 = Inl (ZeroDivisionError Operator)
   \<and> (2::int) \<noteq> 0
   \<and> Bond_init 100 (- (1 / 2)) (- (1 / 4)) (- 3) 2 =
          Inr \<lparr>face_value = 100, coupon_rate = - (1 / 2), yield_to_maturity = - (1 / 4),
               maturity_years = - 3, payments_per_year = 2,
               total_periods = - 6, periodic_coupon = - 25,
               periodic_yield = - (1 / 8)\<rparr>"
  using constructor_validation [of 100 "- (1 / 2)" "- (1 / 4)" "- 3" 2] by simp

subsection \<open>The cash-flow schedule\<close>

text \<open>
  C3: for every constructed Bond whose \<open>total_periods = maturity_years * payments_per_year\<close> is
  at least 1, \<open>_cash_flows\<close> returns a list of exactly \<open>total_periods\<close> entries; every entry
  except the last is the periodic coupon \<open>face_value * coupon_rate / payments_per_year\<close>, and
  the last entry is the periodic coupon plus the face value.
\<close>

theorem cash_flow_schedule:
  assumes "Bond_init fv cr ytm my ppy = Inr b" and "1 \<le> total_periods b"
  shows "\<exists>cfs. cash_flows b = Inr cfs
           \<and> total_periods b = my * ppy
           \<and> int (length cfs) = total_periods b
           \<and> (\<forall>i < length cfs - 1. cfs ! i = fv * cr / of_int ppy)
           \<and> last cfs = fv * cr / of_int ppy + fv"
proof -
  note f = Bond_init_fields[OF assms(1)]
  have n: "schedule b \<noteq> []" by (rule schedule_nonempty[OF assms(2)])
  have len: "length (schedule b) = nat (total_periods b)" by (simp add: schedule_def)
  have "\<forall>i < length (schedule b) - 1. schedule b ! i = periodic_coupon b"
    by (simp add: schedule_def)
  moreover have "last (schedule b) = periodic_coupon b + face_value b"
    using assms(2) by (simp add: last_conv_nth[OF n] len) (simp add: schedule_def)
  moreover have "int (length (schedule b)) = total_periods b"
    using assms(2) by (simp add: len)
  ultimately show ?thesis
    using cash_flows_nonempty[OF assms(2)] f by simp
qed

theorem cash_flow_schedule_witness:
  "\<exists>b. Bond_init 1000 (6 / 100) (8 / 100) 5 1 = Inr b \<and> 1 \<le> total_periods b
     \<and> cash_flows b = Inr [60, 60, 60, 60, 1060]"
proof -
  obtain b where B: "Bond_init 1000 (6 / 100) (8 / 100) 5 1 = Inr b"
    by (simp add: Bond_init_def truediv_def)
  note f = Bond_init_fields[OF B]
  have tp: "1 \<le> total_periods b" using f(4) by simp
  obtain cfs where c: "cash_flows b = Inr cfs" and l: "int (length cfs) = total_periods b"
    and i: "\<forall>i < length cfs - 1. cfs ! i = 1000 * (6 / 100) / of_int 1"
    and e: "last cfs = 1000 * (6 / 100) / of_int 1 + 1000"
    using cash_flow_schedule[OF B tp] by blast
  have l5: "length cfs = 5" using l f(4) by simp
  have "cfs ! 0 = 60" "cfs ! 1 = 60" "cfs ! 2 = 60" "cfs ! 3 = 60"
    using i l5 by simp_all
  moreover have "cfs \<noteq> []" using l5 by auto
  then have "cfs ! 4 = 1060" using e l5 by (simp add: last_conv_nth)
  ultimately have "cfs = [60, 60, 60, 60, 1060]"
    using l5 by (intro nth_equalityI) (auto simp: less_Suc_eq numeral_eq_Suc)
  then show ?thesis using B tp c by blast
qed

text \<open>
  C10: for every constructed Bond whose \<open>total_periods\<close> equals 0, \<open>_cash_flows\<close> indexes the last
  element of an empty list, and each of the five query methods fails with an index error: none
  returns a value and none raises a division-by-zero error.
\<close>

theorem zero_periods_index_error:
  assumes "Bond_init fv cr ytm my ppy = Inr b" and "total_periods b = 0"
  shows "cash_flows b = Inl IndexError
       \<and> price b = Inl IndexError
       \<and> macaulay_duration b = Inl IndexError
       \<and> modified_duration b = Inl IndexError
       \<and> convexity b = Inl IndexError
       \<and> price_percentage_change b delta_yield = Inl IndexError"
proof -
  have cf: "cash_flows b = Inl IndexError"
    using assms(2) by (simp add: cash_flows_empty)
  have p: "price b = Inl IndexError"
    by (simp add: price_def cf)
  have m: "macaulay_duration b = Inl IndexError"
    by (simp add: macaulay_duration_def p)
  have md: "modified_duration b = Inl IndexError"
    by (simp add: modified_duration_def m)
  have c: "convexity b = Inl IndexError"
    by (simp add: convexity_def p)
  have pc: "price_percentage_change b delta_yield = Inl IndexError"
    by (simp add: price_percentage_change_def md)
  show ?thesis using cf p m md c pc by simp
qed

theorem zero_periods_index_error_witness:
  "\<exists>b. Bond_init 100 (1 / 20) (1 / 20) 0 1 = Inr b \<and> total_periods b = 0
     \<and> price b = Inl IndexError
     \<and> macaulay_duration b = Inl IndexError
     \<and> modified_duration b = Inl IndexError
     \<and> convexity b = Inl IndexError
     \<and> price_percentage_change b (1 / 100) = Inl IndexError"
proof -
  obtain b where B: "Bond_init 100 (1 / 20) (1 / 20) 0 1 = Inr b"
    by (simp add: Bond_init_def truediv_def)
  have tp: "total_periods b = 0" using Bond_init_fields(4)[OF B] by simp
  show ?thesis using zero_periods_index_error[OF B tp, of "1 / 100"] B tp by blast
qed

subsection \<open>Price\<close>

text \<open>
  C1 as stated fails for more than one payment a year: with a yield of 100 percent, one year and
  two payments a year the price discounts twice at 50 percent, not once at 100 percent.
\<close>

theorem zero_coupon_price_counterexample:
  "call (Bond_init 100 0 1 1 2) price = Inr (400 / 9)
   \<and> present_value 100 1 1 = Inr 50
   \<and> call (Bond_init 100 0 1 1 2) price \<noteq> present_value 100 1 1"
proof -
  have a: "call (Bond_init 100 0 1 1 2) price = Inr (400 / 9)" by code_simp
  have b: "present_value 100 1 1 = Inr 50" by code_simp
  show ?thesis unfolding a b by simp
qed

text \<open>
  C1, amended: for every Bond constructed with \<open>coupon_rate = 0\<close> and the other arguments
  positive, \<open>price()\<close> equals \<open>present_value(face_value, yield_to_maturity / payments_per_year,
  maturity_years * payments_per_year)\<close>: the face value discounted at the periodic yield over
  the number of periods. For \<open>payments_per_year = 1\<close> this is
  \<open>present_value(face_value, yield_to_maturity, maturity_years)\<close>.
\<close>

theorem zero_coupon_price:
  assumes init: "Bond_init fv 0 ytm my ppy = Inr b"
    and pos: "0 < fv" "0 < ytm" "0 < my" "0 < ppy"
  shows "price b = present_value fv (ytm / of_int ppy) (my * ppy)
       \<and> (ppy = 1 \<longrightarrow> price b = present_value fv ytm my)"
proof -
  note f = Bond_init_fields[OF init]
  have tp: "1 \<le> total_periods b" using pos_periods pos f(4) by simp
  have "0 < ytm / of_int ppy" using pos by simp
  then have d: "1 + periodic_yield b \<noteq> 0" using f(6) by simp
  have c0: "periodic_coupon b = 0" using f(5) by simp
  have "price b = Inr (fv / power_int (1 + ytm / of_int ppy) (my * ppy))"
    using price_ok[OF tp d] pv_sum_schedule[OF tp, of "1 + periodic_yield b"]
    by (simp add: c0 pv_sum_replicate_zero f)
  moreover have "present_value fv (ytm / of_int ppy) (my * ppy)
      = Inr (fv / power_int (1 + ytm / of_int ppy) (my * ppy))"
    using d f(6) by (simp add: present_value_ok)
  ultimately have gen: "price b = present_value fv (ytm / of_int ppy) (my * ppy)" by simp
  show ?thesis using gen by auto
qed

theorem zero_coupon_price_witness:
  "\<exists>b. Bond_init 1000 0 (8 / 100) 5 1 = Inr b
     \<and> price b = present_value 1000 (8 / 100) 5
     \<and> price b = Inr (1000 / (1 + 8 / 100) ^ 5)"
proof -
  obtain b where B: "Bond_init 1000 0 (8 / 100) 5 1 = Inr b"
    by (simp add: Bond_init_def truediv_def)
  have "price b = present_value 1000 (8 / 100) 5"
    using zero_coupon_price[OF B] by simp
  moreover have "present_value 1000 (8 / 100) 5 = Inr (1000 / (1 + 8 / 100) ^ 5)"
    by (simp add: present_value_ok)
  ultimately show ?thesis using B by auto
qed




subsection \<open>Durations\<close>




subsection \<open>Price sensitivity\<close>



subsection \<open>Failures of the query methods\<close>




subsection \<open>The example of the script\<close>

text \<open>
  C5 as stated fails in its last figure: \<open>price_percentage_change(0.01)\<close> includes the convexity
  term and is about \<open>-0.0400\<close>; \<open>-0.0411\<close> is the duration term alone.
\<close>

theorem example_bond_counterexample:
  "call1 (Bond_init 1000 (6 / 100) (8 / 100) 5 1) price_percentage_change (1 / 100)
     = Inr (- (4107643037 / 102667200624))
   \<and> \<not> approx (call1 (Bond_init 1000 (6 / 100) (8 / 100) 5 1) price_percentage_change (1 / 100))
          (- 0.0411) 0.001"
proof -
  have a: "call1 (Bond_init 1000 (6 / 100) (8 / 100) 5 1) price_percentage_change (1 / 100)
     = Inr (- (4107643037 / 102667200624))" by code_simp
  show ?thesis unfolding a by (simp add: approx_def)
qed

text \<open>
  C5, amended: the Bond constructed with \<open>face_value = 1000\<close>, \<open>coupon_rate = 0.06\<close>,
  \<open>yield_to_maturity = 0.08\<close>, \<open>maturity_years = 5\<close>, \<open>payments_per_year = 1\<close> has \<open>price()\<close>
  within 0.005 of 920.15, \<open>macaulay_duration()\<close> within 0.005 of 4.44, \<open>modified_duration()\<close>
  within 0.005 of 4.11, and \<open>price_percentage_change(0.01)\<close> within 0.00005 of \<open>-0.0400\<close>.
\<close>

theorem example_bond:
  "approx (call (Bond_init 1000 (6 / 100) (8 / 100) 5 1) price) 920.15 0.005
   \<and> approx (call (Bond_init 1000 (6 / 100) (8 / 100) 5 1) macaulay_duration) 4.44 0.005
   \<and> approx (call (Bond_init 1000 (6 / 100) (8 / 100) 5 1) modified_duration) 4.11 0.005
   \<and> approx (call1 (Bond_init 1000 (6 / 100) (8 / 100) 5 1) price_percentage_change (1 / 100)) (- 0.0400) 0.00005"
proof -
  have p: "call (Bond_init 1000 (6 / 100) (8 / 100) 5 1) price = Inr (13203086500 / 14348907)" by code_simp
  have m: "call (Bond_init 1000 (6 / 100) (8 / 100) 5 1) macaulay_duration = Inr (117225523 / 26406173)" by code_simp
  have d: "call (Bond_init 1000 (6 / 100) (8 / 100) 5 1) modified_duration = Inr (2930638075 / 712966671)" by code_simp
  have c: "call1 (Bond_init 1000 (6 / 100) (8 / 100) 5 1) price_percentage_change (1 / 100)
     = Inr (- (4107643037 / 102667200624))" by code_simp
  show ?thesis unfolding p m d c by (simp add: approx_def)
qed

end
